theory Spec2Isabelle
  imports Main
begin

section \<open>JavaScript values\<close>

text \<open>
  The tool-call handler of \<^verbatim>\<open>src/index.ts\<close> receives its arguments as \<^verbatim>\<open>any\<close> and
  passes JavaScript values around: the arguments of the call, the bodies of the outbound
  requests, the bodies of the remote responses and the payloads it serialises.
  \<open>Undefined\<close> is the value of a missing property, \<open>NaN\<close> the result of a failed
  \<^verbatim>\<open>parseInt\<close>. An object is the list of its properties, in the order in which the
  runtime enumerates them.

  The runtime's numbers are doubles and its strings are sequences of 16-bit code units.
  \<open>Num n\<close> stands for the double that holds the integer \<open>n\<close> exactly, which every
  integer of magnitude up to \<open>2 ^ 53\<close> has (the pagination arguments and the feed id are
  declared as integers); fractions, and integers beyond that magnitude, are not among
  these values. \<open>Str s\<close> stands for a string of code units below 256.
\<close>

datatype jsval =
    Undefined
  | Null
  | Bool bool
  | Num int
  | NaN
  | Str string
  | Arr "jsval list"
  | Obj "(string \<times> jsval) list"

text \<open>A thrown value, as the \<^verbatim>\<open>catch\<close> block reads it: \<^verbatim>\<open>error.message\<close> and
  \<^verbatim>\<open>error.response?.data\<close> (\<open>Undefined\<close> when the error has no response or the
  response has no data).\<close>

datatype js_error = JsError (message: string) (response_data: jsval)

text \<open>\<^verbatim>\<open>new Error(msg)\<close> and the engine's own \<^verbatim>\<open>TypeError\<close>s carry no response.\<close>

definition Error :: "string \<Rightarrow> js_error" where
  "Error msg = JsError msg Undefined"

definition TypeError :: "string \<Rightarrow> js_error" where
  "TypeError msg = JsError msg Undefined"

text \<open>Truthiness, and the operator \<^verbatim>\<open>a || b\<close>.\<close>

fun truthy :: "jsval \<Rightarrow> bool" where
  "truthy Undefined = False"
| "truthy Null = False"
| "truthy (Bool b) = b"
| "truthy (Num n) = (n \<noteq> 0)"
| "truthy NaN = False"
| "truthy (Str s) = (s \<noteq> [])"
| "truthy (Arr xs) = True"
| "truthy (Obj kvs) = True"

definition js_or :: "jsval \<Rightarrow> jsval \<Rightarrow> jsval" where
  "js_or a b = (if truthy a then a else b)"

text \<open>Property access \<^verbatim>\<open>v.k\<close>: a \<^verbatim>\<open>TypeError\<close> on \<^verbatim>\<open>undefined\<close> and \<^verbatim>\<open>null\<close>,
  the property's value on an object, the length of a string or an array, and
  \<^verbatim>\<open>undefined\<close> for any other property of a primitive or an array (the handler reads
  no other built-in property).\<close>

fun js_get :: "jsval \<Rightarrow> string \<Rightarrow> js_error + jsval" where
  "js_get Undefined k =
     Inl (TypeError (''Cannot read properties of undefined (reading '' @ [CHR 0x27] @ k @ [CHR 0x27] @ '')''))"
| "js_get Null k =
     Inl (TypeError (''Cannot read properties of null (reading '' @ [CHR 0x27] @ k @ [CHR 0x27] @ '')''))"
| "js_get (Obj kvs) k = Inr (case map_of kvs k of None \<Rightarrow> Undefined | Some v \<Rightarrow> v)"
| "js_get (Str s) k = Inr (if k = ''length'' then Num (int (length s)) else Undefined)"
| "js_get (Arr xs) k = Inr (if k = ''length'' then Num (int (length xs)) else Undefined)"
| "js_get v k = Inr Undefined"

text \<open>Optional chaining \<^verbatim>\<open>v?.k\<close>: \<^verbatim>\<open>undefined\<close> where \<^verbatim>\<open>v.k\<close> would throw.\<close>

definition js_opt_get :: "jsval \<Rightarrow> string \<Rightarrow> jsval" where
  "js_opt_get v k = (case js_get v k of Inl e \<Rightarrow> Undefined | Inr x \<Rightarrow> x)"

text \<open>Sequencing of steps that may throw.\<close>

definition js_bind :: "js_error + 'a \<Rightarrow> ('a \<Rightarrow> js_error + 'b) \<Rightarrow> js_error + 'b" where
  "js_bind r f = (case r of Inl e \<Rightarrow> Inl e | Inr v \<Rightarrow> f v)"

subsection \<open>Strings\<close>

text \<open>\<^verbatim>\<open>String.prototype.toLowerCase\<close> on code units below 256: the letters A to Z and
  the accented capitals U+00C0 to U+00DE (the multiplication sign U+00D7 apart) move up
  by 32.\<close>

definition lower_char :: "char \<Rightarrow> char" where
  "lower_char c =
     (let n = (of_char c :: nat)
      in if (65 \<le> n \<and> n \<le> 90) \<or> (192 \<le> n \<and> n \<le> 222 \<and> n \<noteq> 215)
         then char_of (n + 32) else c)"

definition toLowerCase :: "string \<Rightarrow> string" where
  "toLowerCase s = map lower_char s"

text \<open>\<^verbatim>\<open>s.includes(t)\<close>: \<open>t\<close> occurs in \<open>s\<close> as a contiguous run.\<close>

fun is_prefix :: "string \<Rightarrow> string \<Rightarrow> bool" where
  "is_prefix [] s = True"
| "is_prefix (a # t) [] = False"
| "is_prefix (a # t) (b # s) = (a = b \<and> is_prefix t s)"

fun js_includes :: "string \<Rightarrow> string \<Rightarrow> bool" where
  "js_includes [] t = (t = [])"
| "js_includes (c # s) t = (is_prefix t (c # s) \<or> js_includes s t)"

text \<open>The method call \<^verbatim>\<open>v.toLowerCase()\<close> on an arbitrary value \<open>v\<close>, written
  \<open>src\<close> in the source.\<close>

fun call_toLowerCase :: "string \<Rightarrow> jsval \<Rightarrow> js_error + string" where
  "call_toLowerCase src (Str s) = Inr (toLowerCase s)"
| "call_toLowerCase src Undefined =
     Inl (TypeError (''Cannot read properties of undefined (reading '' @ [CHR 0x27] @ ''toLowerCase'' @ [CHR 0x27] @ '')''))"
| "call_toLowerCase src Null =
     Inl (TypeError (''Cannot read properties of null (reading '' @ [CHR 0x27] @ ''toLowerCase'' @ [CHR 0x27] @ '')''))"
| "call_toLowerCase src v = Inl (TypeError (src @ ''.toLowerCase is not a function''))"

subsection \<open>\<^verbatim>\<open>parseInt\<close>\<close>

definition isStrWhiteSpaceChar :: "char \<Rightarrow> bool" where
  "isStrWhiteSpaceChar c = ((of_char c :: nat) \<in> {9, 10, 11, 12, 13, 32, 160})"

definition digit_value :: "char \<Rightarrow> nat" where
  "digit_value c =
     (let n = (of_char c :: nat)
      in if 48 \<le> n \<and> n \<le> 57 then n - 48
         else if 97 \<le> n \<and> n \<le> 122 then n - 87
         else if 65 \<le> n \<and> n \<le> 90 then n - 55
         else 36)"

text \<open>\<^verbatim>\<open>parseInt(s)\<close> with no radix: leading white space is skipped, a sign is read, a
  prefix \<^verbatim>\<open>0x\<close> selects base 16, and the longest run of digits of the base is the
  value; \<open>NaN\<close> when that run is empty. The value is the runtime's as long as its
  magnitude is at most \<open>2 ^ 53\<close>; beyond that the runtime rounds to a double.\<close>

definition parseInt :: "string \<Rightarrow> jsval" where
  "parseInt inputString =
     (let S = dropWhile isStrWhiteSpaceChar inputString;
          sign = (if take 1 S = ''-'' then - 1 else (1::int));
          S1 = (if take 1 S = ''-'' \<or> take 1 S = ''+'' then drop 1 S else S);
          hex = (take 2 S1 = ''0x'' \<or> take 2 S1 = ''0X'');
          R = (if hex then 16 else (10::nat));
          S2 = (if hex then drop 2 S1 else S1);
          Z = takeWhile (\<lambda>c. digit_value c < R) S2
      in if Z = [] then NaN
         else Num (sign * int (foldl (\<lambda>a c. a * R + digit_value c) 0 Z)))"

subsection \<open>\<^verbatim>\<open>Array.prototype.filter\<close>\<close>

text \<open>The callback may throw; the first element on which it does ends the loop.\<close>

fun filter_throwing :: "(jsval \<Rightarrow> js_error + bool) \<Rightarrow> jsval list \<Rightarrow> js_error + jsval list" where
  "filter_throwing p [] = Inr []"
| "filter_throwing p (x # xs) =
     js_bind (p x) (\<lambda>b. js_bind (filter_throwing p xs) (\<lambda>ys. Inr (if b then x # ys else ys)))"

fun call_filter :: "string \<Rightarrow> jsval \<Rightarrow> (jsval \<Rightarrow> js_error + bool) \<Rightarrow> js_error + jsval list" where
  "call_filter src (Arr xs) p = filter_throwing p xs"
| "call_filter src Undefined p =
     Inl (TypeError (''Cannot read properties of undefined (reading '' @ [CHR 0x27] @ ''filter'' @ [CHR 0x27] @ '')''))"
| "call_filter src Null p =
     Inl (TypeError (''Cannot read properties of null (reading '' @ [CHR 0x27] @ ''filter'' @ [CHR 0x27] @ '')''))"
| "call_filter src v p = Inl (TypeError (src @ ''.filter is not a function''))"

section \<open>\<^verbatim>\<open>JSON.stringify(value, null, 2)\<close>\<close>

text \<open>\<^verbatim>\<open>Number::toString\<close> on the integers of magnitude up to \<open>2 ^ 53\<close>: every digit
  is written. (The runtime shortens larger doubles and writes an exponent from
  \<open>10 ^ 21\<close> on; those are not among the values here.)\<close>

definition digit_char :: "nat \<Rightarrow> char" where
  "digit_char d = char_of (48 + d)"

fun nat_digits :: "nat \<Rightarrow> string" where
  "nat_digits n = (if n < 10 then [digit_char n] else nat_digits (n div 10) @ [digit_char (n mod 10)])"

declare nat_digits.simps [simp del]

definition number_to_string :: "int \<Rightarrow> string" where
  "number_to_string n = (if n < 0 then ''-'' @ nat_digits (nat (- n)) else nat_digits (nat n))"

definition hex_char :: "nat \<Rightarrow> char" where
  "hex_char d = (if d < 10 then char_of (48 + d) else char_of (87 + d))"

text \<open>The quotation mark, the backslash and the control characters are escaped; every
  other code unit stands for itself.\<close>

definition quote_char :: "char \<Rightarrow> string" where
  "quote_char c =
     (if c = CHR 0x08 then [CHR 0x5C, CHR ''b'']
      else if c = CHR 0x09 then [CHR 0x5C, CHR ''t'']
      else if c = CHR 0x0A then [CHR 0x5C, CHR ''n'']
      else if c = CHR 0x0C then [CHR 0x5C, CHR ''f'']
      else if c = CHR 0x0D then [CHR 0x5C, CHR ''r'']
      else if c = CHR 0x22 then [CHR 0x5C, CHR 0x22]
      else if c = CHR 0x5C then [CHR 0x5C, CHR 0x5C]
      else if (of_char c :: nat) < 32
        then [CHR 0x5C, CHR ''u'', CHR ''0'', CHR ''0'',
              hex_char (of_char c div 16), hex_char (of_char c mod 16)]
      else [c])"

definition QuoteJSONString :: "string \<Rightarrow> string" where
  "QuoteJSONString s = [CHR 0x22] @ concat (map quote_char s) @ [CHR 0x22]"

definition gap :: string where
  "gap = ''  ''"

fun join :: "string \<Rightarrow> string list \<Rightarrow> string" where
  "join sep [] = []"
| "join sep [x] = x"
| "join sep (x # y # ys) = x @ sep @ join sep (y # ys)"

text \<open>\<open>SerializeJSONProperty ind v\<close> is the text of \<open>v\<close> at the indentation \<open>ind\<close>, or
  \<open>None\<close> for \<^verbatim>\<open>undefined\<close>: an array element that is \<^verbatim>\<open>undefined\<close> is written
  \<^verbatim>\<open>null\<close>, an object property that is \<^verbatim>\<open>undefined\<close> is left out.\<close>

fun SerializeJSONProperty :: "string \<Rightarrow> jsval \<Rightarrow> string option" where
  "SerializeJSONProperty ind Undefined = None"
| "SerializeJSONProperty ind Null = Some ''null''"
| "SerializeJSONProperty ind (Bool b) = Some (if b then ''true'' else ''false'')"
| "SerializeJSONProperty ind (Num n) = Some (number_to_string n)"
| "SerializeJSONProperty ind NaN = Some ''null''"
| "SerializeJSONProperty ind (Str s) = Some (QuoteJSONString s)"
| "SerializeJSONProperty ind (Arr xs) =
     (let partial = map (\<lambda>x. case SerializeJSONProperty (ind @ gap) x of
                               None \<Rightarrow> ''null'' | Some t \<Rightarrow> t) xs
      in Some (if partial = [] then ''[]''
               else ''['' @ [CHR 0x0A] @ (ind @ gap)
                    @ join ('','' @ [CHR 0x0A] @ (ind @ gap)) partial
                    @ [CHR 0x0A] @ ind @ '']''))"
| "SerializeJSONProperty ind (Obj kvs) =
     (let partial = concat (map (\<lambda>kv. case SerializeJSONProperty (ind @ gap) (snd kv) of
                                       None \<Rightarrow> []
                                     | Some t \<Rightarrow> [QuoteJSONString (fst kv) @ '': '' @ t]) kvs)
      in Some (if partial = [] then ''{}''
               else ''{'' @ [CHR 0x0A] @ (ind @ gap)
                    @ join ('','' @ [CHR 0x0A] @ (ind @ gap)) partial
                    @ [CHR 0x0A] @ ind @ ''}''))"

definition JSON_stringify :: "jsval \<Rightarrow> string option" where
  "JSON_stringify v = SerializeJSONProperty [] v"

section \<open>The outbound HTTP client\<close>

datatype http_method = GET | POST

text \<open>What \<^verbatim>\<open>apiClient.get(url, {params})\<close> and \<^verbatim>\<open>apiClient.post(url, data)\<close> send.\<close>

record http_request =
  verb :: http_method
  url :: string
  params :: jsval
  data :: jsval

text \<open>The remote API is any function from the request to either the error the promise
  rejects with or \<^verbatim>\<open>response.data\<close>.\<close>

type_synonym remote = "http_request \<Rightarrow> js_error + jsval"

text \<open>A step of the handler: the requests it performed, in order, and what it threw or
  returned.\<close>

type_synonym 'a io = "http_request list \<times> (js_error + 'a)"

definition io_pure :: "js_error + 'a \<Rightarrow> 'a io" where
  "io_pure r = ([], r)"

definition io_bind :: "'a io \<Rightarrow> ('a \<Rightarrow> 'b io) \<Rightarrow> 'b io" where
  "io_bind m f =
     (case snd m of
        Inl e \<Rightarrow> (fst m, Inl e)
      | Inr v \<Rightarrow> (fst m @ fst (f v), snd (f v)))"

definition apiClient_get :: "remote \<Rightarrow> string \<Rightarrow> jsval \<Rightarrow> jsval io" where
  "apiClient_get remote u ps =
     (let req = \<lparr>verb = GET, url = u, params = ps, data = Undefined\<rparr> in ([req], remote req))"

definition apiClient_post :: "remote \<Rightarrow> string \<Rightarrow> jsval \<Rightarrow> jsval io" where
  "apiClient_post remote u body =
     (let req = \<lparr>verb = POST, url = u, params = Undefined, data = body\<rparr> in ([req], remote req))"

section \<open>Configuration\<close>

text \<open>\<^verbatim>\<open>const FEED_ID = process.env.FEED_ID || "292"\<close>: the environment variable, when
  it is set and not empty.\<close>

definition FEED_ID :: "string option \<Rightarrow> string" where
  "FEED_ID env = (case env of None \<Rightarrow> ''292'' | Some s \<Rightarrow> if s = [] then ''292'' else s)"

section \<open>The tool catalogue\<close>

text \<open>The names that the \<^verbatim>\<open>ListToolsRequestSchema\<close> handler returns, in its order.\<close>

definition tool_names :: "string list" where
  "tool_names =
     [''list_available_entity_types'',
      ''list_entity_values'',
      ''search_by_report_type'',
      ''lookup_cities'',
      ''search_by_city'',
      ''list_report_types'',
      ''search_reports_by_date_range'',
      ''advanced_content_search'',
      ''get_latest_market_report_by_city'',
      ''get_latest_price_analysis_by_city'']"

section \<open>The tool-call handler\<close>

text \<open>The body of the \<^verbatim>\<open>try\<close> block: the \<^verbatim>\<open>switch\<close> on the tool name. Each branch
  performs its request and yields the value that the branch then serialises. The
  arguments of an object literal are evaluated in the order they are written, before the
  request is sent; in \<open>lookup_cities\<close> the arguments are read only after the response has
  arrived.\<close>

definition call_tool :: "string option \<Rightarrow> remote \<Rightarrow> string \<Rightarrow> jsval \<Rightarrow> jsval io" where
  "call_tool env remote toolName args =
    (if toolName = ''list_available_entity_types'' then
       apiClient_get remote (''/api/content/entity_types/'' @ FEED_ID env) Undefined
     else if toolName = ''list_entity_values'' then
       io_bind (io_pure (js_get args ''entity_type'')) (\<lambda>entity_type.
         apiClient_get remote (''/api/content/entity_values/'' @ FEED_ID env)
           (Obj [(''entity_type'', entity_type)]))
     else if toolName = ''lookup_cities'' then
       io_bind (apiClient_get remote (''/api/content/entity_values/'' @ FEED_ID env)
                  (Obj [(''entity_type'', Str ''city'')])) (\<lambda>response_data.
         io_pure
          (js_bind (js_get args ''partial_name'') (\<lambda>partial_name.
           js_bind (call_toLowerCase ''args.partial_name'' partial_name) (\<lambda>partialNameLower.
           js_bind (js_get response_data ''unique_entity_value'') (\<lambda>unique_entity_value.
           js_bind (call_filter ''response.data.unique_entity_value'' unique_entity_value
                      (\<lambda>city. js_bind (call_toLowerCase ''city'' city)
                                 (\<lambda>lower. Inr (js_includes lower partialNameLower))))
             (\<lambda>matchedCities.
               Inr (Obj [(''status'', Str ''success''),
                         (''matched_cities'', Arr matchedCities),
                         (''count'', Num (int (length matchedCities))),
                         (''usage_note'',
                          Str ''Use one of these exact city names with the search_by_city tool'')])))))))
     else if toolName = ''search_by_report_type'' then
       io_bind (io_pure
          (js_bind (js_get args ''page_num'') (\<lambda>page_num.
           js_bind (js_get args ''page_size'') (\<lambda>page_size.
           js_bind (js_get args ''report_type'') (\<lambda>report_type.
             Inr (Obj [(''feed_id'', parseInt (FEED_ID env)),
                       (''page_num'', js_or page_num (Num 0)),
                       (''page_size'', js_or page_size (Num 10)),
                       (''entity_details'',
                        Arr [Obj [(''entity_type'', Str ''Report''),
                                  (''entity_value'', report_type)]])]))))))
         (apiClient_post remote ''/api/content/feed'')
     else if toolName = ''search_by_city'' then
       io_bind (io_pure
          (js_bind (js_get args ''page_num'') (\<lambda>page_num.
           js_bind (js_get args ''page_size'') (\<lambda>page_size.
           js_bind (js_get args ''city_name'') (\<lambda>city_name.
             Inr (Obj [(''feed_id'', parseInt (FEED_ID env)),
                       (''page_num'', js_or page_num (Num 0)),
                       (''page_size'', js_or page_size (Num 10)),
                       (''entity_details'',
                        Arr [Obj [(''entity_type'', Str ''city''),
                                  (''entity_value'', city_name)]])]))))))
         (apiClient_post remote ''/api/content/feed'')
     else if toolName = ''search_reports_by_date_range'' then
       io_bind (io_pure
          (js_bind (js_get args ''start_date'') (\<lambda>start_date.
           js_bind (js_get args ''end_date'') (\<lambda>end_date.
           js_bind (js_get args ''page_num'') (\<lambda>page_num.
           js_bind (js_get args ''page_size'') (\<lambda>page_size.
             Inr (Obj [(''feed_id'', parseInt (FEED_ID env)),
                       (''published_date_from'', start_date),
                       (''published_date_to'', end_date),
                       (''page_num'', js_or page_num (Num 0)),
                       (''page_size'', js_or page_size (Num 10))])))))))
         (apiClient_post remote ''/api/content/feed'')
     else if toolName = ''advanced_content_search'' then
       io_bind (io_pure
          (js_bind (js_get args ''published_date_from'') (\<lambda>published_date_from.
           js_bind (js_get args ''published_date_to'') (\<lambda>published_date_to.
           js_bind (js_get args ''page_num'') (\<lambda>page_num.
           js_bind (js_get args ''page_size'') (\<lambda>page_size.
           js_bind (js_get args ''entity_details'') (\<lambda>entity_details.
             Inr (Obj [(''feed_id'', parseInt (FEED_ID env)),
                       (''published_date_from'', published_date_from),
                       (''published_date_to'', published_date_to),
                       (''page_num'', page_num),
                       (''page_size'', page_size),
                       (''entity_details'', entity_details)]))))))))
         (apiClient_post remote ''/api/content/feed'')
     else if toolName = ''get_latest_market_report_by_city'' then
       io_bind (io_pure
          (js_bind (js_get args ''city_name'') (\<lambda>city_name.
             Inr (Obj [(''feed_id'', parseInt (FEED_ID env)),
                       (''page_num'', Num 0),
                       (''page_size'', Num 1),
                       (''entity_details'',
                        Arr [Obj [(''entity_type'', Str ''city''),
                                  (''entity_value'', city_name)],
                             Obj [(''entity_type'', Str ''Report''),
                                  (''entity_value'', Str ''Monthly Report: Major Cities'')]])]))))
         (apiClient_post remote ''/api/content/feed'')
     else if toolName = ''get_latest_price_analysis_by_city'' then
       io_bind (io_pure
          (js_bind (js_get args ''city_name'') (\<lambda>city_name.
             Inr (Obj [(''feed_id'', parseInt (FEED_ID env)),
                       (''page_num'', Num 0),
                       (''page_size'', Num 1),
                       (''entity_details'',
                        Arr [Obj [(''entity_type'', Str ''city''),
                                  (''entity_value'', city_name)],
                             Obj [(''entity_type'', Str ''Report''),
                                  (''entity_value'', Str ''Monthly Report: Major Cities'')]])]))))
         (apiClient_post remote ''/api/content/feed'')
     else if toolName = ''list_report_types'' then
       io_bind (apiClient_get remote (''/api/content/entity_values/'' @ FEED_ID env)
                  (Obj [(''entity_type'', Str ''Report'')])) (\<lambda>response_data.
         io_pure
          (js_bind (js_get response_data ''unique_entity_value'') (\<lambda>report_types.
           js_bind (js_get report_types ''length'') (\<lambda>count.
             Inr (Obj [(''status'', Str ''success''),
                       (''report_types'', report_types),
                       (''count'', count),
                       (''usage_note'',
                        Str ''Use one of these exact report types with search_by_report_type tool'')])))))
     else
       io_pure (Inl (Error (''Unknown tool: '' @ toolName))))"

text \<open>The \<^verbatim>\<open>catch\<close> block: the error envelope.\<close>

definition errorMessage :: "js_error \<Rightarrow> jsval" where
  "errorMessage error =
     js_or (js_or (js_opt_get (response_data error) ''message'') (Str (message error)))
           (Str ''Unknown error occurred'')"

definition error_envelope :: "js_error \<Rightarrow> jsval" where
  "error_envelope error =
     Obj [(''status'', Str ''error''),
          (''message'', errorMessage error),
          (''details'', js_or (response_data error) Null)]"

text \<open>The handler: the requests performed, the value that is serialised, and the text
  of the single content item it returns.\<close>

definition envelope :: "js_error + jsval \<Rightarrow> jsval" where
  "envelope r = (case r of Inl error \<Rightarrow> error_envelope error | Inr payload \<Rightarrow> payload)"

definition handler :: "string option \<Rightarrow> remote \<Rightarrow> string \<Rightarrow> jsval \<Rightarrow> http_request list \<times> string option" where
  "handler env remote toolName args =
     (let r = call_tool env remote toolName args
      in (fst r, JSON_stringify (envelope (snd r))))"

section \<open>Vocabulary of the properties\<close>

text \<open>The values of one field in the bodies of the requests performed, in order.\<close>

definition sent_field :: "string \<Rightarrow> http_request list \<Rightarrow> jsval list" where
  "sent_field k reqs = map (\<lambda>req. js_opt_get (data req) k) reqs"

text \<open>The range that the tool descriptions document for \<open>page_size\<close>.\<close>

definition in_page_size_range :: "jsval \<Rightarrow> bool" where
  "in_page_size_range v = (case v of Num n \<Rightarrow> 1 \<le> n \<and> n \<le> 50 | _ \<Rightarrow> False)"

text \<open>Remote fixtures: one that answers every request with \<^verbatim>\<open>null\<close>, one that
  answers every request with the given body, and one that fails every request the way
  axios reports a status 500 with the given body.\<close>

definition remote_ok :: remote where
  "remote_ok req = Inr Null"

definition remote_returning :: "jsval \<Rightarrow> remote" where
  "remote_returning body req = Inr body"

definition remote_500 :: "jsval \<Rightarrow> remote" where
  "remote_500 body req = Inl (JsError ''Request failed with status code 500'' body)"

section \<open>Basic facts\<close>

lemma is_prefix_iff: "is_prefix t s \<longleftrightarrow> (\<exists>ss. s = t @ ss)"
  by (induction t s rule: is_prefix.induct) auto

lemma js_includes_iff: "js_includes s t \<longleftrightarrow> (\<exists>ps ss. s = ps @ t @ ss)"
proof (induction s)
  case Nil
  then show ?case by auto
next
  case (Cons c s)
  have "(\<exists>ps ss. c # s = ps @ t @ ss) \<longleftrightarrow> (\<exists>ss. c # s = t @ ss) \<or> (\<exists>ps ss. s = ps @ t @ ss)"
  proof
    assume "\<exists>ps ss. c # s = ps @ t @ ss"
    then obtain ps ss where eq: "c # s = ps @ t @ ss" by blast
    show "(\<exists>ss. c # s = t @ ss) \<or> (\<exists>ps ss. s = ps @ t @ ss)"
    proof (cases ps)
      case Nil
      with eq show ?thesis by auto
    next
      case (Cons p ps')
      with eq have "s = ps' @ t @ ss" by simp
      then show ?thesis by blast
    qed
  next
    assume "(\<exists>ss. c # s = t @ ss) \<or> (\<exists>ps ss. s = ps @ t @ ss)"
    then show "\<exists>ps ss. c # s = ps @ t @ ss"
    proof
      assume "\<exists>ss. c # s = t @ ss"
      then obtain ss where "c # s = [] @ t @ ss" by auto
      then show ?thesis by blast
    next
      assume "\<exists>ps ss. s = ps @ t @ ss"
      then obtain ps ss where "c # s = (c # ps) @ t @ ss" by auto
      then show ?thesis by blast
    qed
  qed
  with Cons show ?case by (simp add: is_prefix_iff)
qed

lemma js_bind_simps: "js_bind (Inl e) f = Inl e" "js_bind (Inr v) f = f v"
  by (simp_all add: js_bind_def)

lemma filter_throwing_strings:
  "filter_throwing (\<lambda>city. js_bind (call_toLowerCase src city) (\<lambda>lower. Inr (P lower))) (map Str cities)
   = Inr (map Str (filter (\<lambda>city. P (toLowerCase city)) cities))"
  by (induction cities) (simp_all add: js_bind_simps)

lemma io_bind_pure_Inr: "io_bind (io_pure (Inr v)) f = f v"
  by (simp add: io_bind_def io_pure_def)

lemma feed_id_default: "parseInt (FEED_ID None) = Num 292"
  by code_simp

lemma io_bind_then_pure: "io_bind (t, r) (\<lambda>v. io_pure (k v)) = (t, js_bind r k)"
  by (simp add: io_bind_def io_pure_def js_bind_def split: sum.splits)

lemma io_bind_pure: "io_bind (io_pure b) f = (case b of Inl e \<Rightarrow> ([], Inl e) | Inr v \<Rightarrow> f v)"
  by (simp add: io_bind_def io_pure_def split: sum.splits)

lemma apiClient_post_alone:
  "apiClient_post remote u body =
     ([\<lparr>verb = POST, url = u, params = Undefined, data = body\<rparr>],
      remote \<lparr>verb = POST, url = u, params = Undefined, data = body\<rparr>)"
  by (simp add: apiClient_post_def Let_def)

lemma apiClient_get_alone:
  "apiClient_get remote u ps =
     ([\<lparr>verb = GET, url = u, params = ps, data = Undefined\<rparr>],
      remote \<lparr>verb = GET, url = u, params = ps, data = Undefined\<rparr>)"
  by (simp add: apiClient_get_def Let_def)

lemma io_pure_Inl: "io_pure (Inl e) = ([], Inl e)"
  by (simp add: io_pure_def)

lemma remote_failure_propagates:
  assumes "req \<in> set (fst (call_tool env remote toolName args))"
    and "remote req = Inl error"
  shows "call_tool env remote toolName args = ([req], Inl error)"
  using assms
  unfolding call_tool_def
  by (auto simp add: io_bind_then_pure io_bind_pure apiClient_post_alone apiClient_get_alone io_pure_Inl js_bind_simps
      split: if_splits sum.splits)

section \<open>Unknown tools\<close>

text \<open>Claim C1. A tool name outside the catalogue yields the error envelope with the
  message \<^verbatim>\<open>Unknown tool: <name>\<close> (and no details), and no request is performed.\<close>

theorem unknown_tool_error_envelope:
  "toolName \<notin> set tool_names \<Longrightarrow>
   handler env remote toolName args =
     ([], JSON_stringify (Obj [(''status'', Str ''error''),
                               (''message'', Str (''Unknown tool: '' @ toolName)),
                               (''details'', Null)]))"
  by (simp add: tool_names_def handler_def call_tool_def io_pure_def envelope_def error_envelope_def
      errorMessage_def Error_def js_or_def js_opt_get_def)

theorem unknown_tool_error_envelope_witness:
  "''delete_feed'' \<notin> set tool_names \<and>
   handler None remote_ok ''delete_feed'' (Obj [(''feed_id'', Num 292)]) =
     ([], JSON_stringify (Obj [(''status'', Str ''error''),
                               (''message'', Str ''Unknown tool: delete_feed''),
                               (''details'', Null)]))"
  using unknown_tool_error_envelope [of "''delete_feed''" None remote_ok "Obj [(''feed_id'', Num 292)]"]
  by (simp add: tool_names_def)

section \<open>City lookup\<close>

text \<open>Claim C2. Given a string \<open>partial_name\<close> and a remote list of city strings,
  \<open>lookup_cities\<close> performs the one GET for the entity type \<open>city\<close> and returns the
  cities whose lower-cased form contains the lower-cased \<open>partial_name\<close> as a
  contiguous run, in the order of the list, with their number as \<open>count\<close>.\<close>

theorem lookup_cities_matches:
  assumes "js_get args ''partial_name'' = Inr (Str partial_name)"
    and "remote \<lparr>verb = GET, url = ''/api/content/entity_values/'' @ FEED_ID env,
                  params = Obj [(''entity_type'', Str ''city'')], data = Undefined\<rparr> = Inr body"
    and "js_get body ''unique_entity_value'' = Inr (Arr (map Str cities))"
  shows "handler env remote ''lookup_cities'' args =
     ([\<lparr>verb = GET, url = ''/api/content/entity_values/'' @ FEED_ID env,
        params = Obj [(''entity_type'', Str ''city'')], data = Undefined\<rparr>],
      JSON_stringify (Obj
        [(''status'', Str ''success''),
         (''matched_cities'',
          Arr (map Str (filter (\<lambda>city. \<exists>ps ss. toLowerCase city = ps @ toLowerCase partial_name @ ss) cities))),
         (''count'',
          Num (int (length (filter (\<lambda>city. \<exists>ps ss. toLowerCase city = ps @ toLowerCase partial_name @ ss) cities)))),
         (''usage_note'', Str ''Use one of these exact city names with the search_by_city tool'')]))"
  using assms
  by (simp add: handler_def call_tool_def io_bind_def io_pure_def apiClient_get_def envelope_def
      js_bind_simps filter_throwing_strings js_includes_iff)

text \<open>The fixture of the specification: \<^verbatim>\<open>new\<close> against New York, Newark, Boston.\<close>

theorem lookup_cities_matches_witness:
  "handler None (remote_returning (Obj [(''unique_entity_value'', Arr [Str ''New York'', Str ''Newark'', Str ''Boston''])]))
      ''lookup_cities'' (Obj [(''partial_name'', Str ''new'')]) =
     ([\<lparr>verb = GET, url = ''/api/content/entity_values/292'',
        params = Obj [(''entity_type'', Str ''city'')], data = Undefined\<rparr>],
      JSON_stringify (Obj
        [(''status'', Str ''success''),
         (''matched_cities'', Arr [Str ''New York'', Str ''Newark'']),
         (''count'', Num 2),
         (''usage_note'', Str ''Use one of these exact city names with the search_by_city tool'')]))"
proof -
  have "filter (\<lambda>city. js_includes (toLowerCase city) (toLowerCase ''new''))
          [''New York'', ''Newark'', ''Boston''] = [''New York'', ''Newark'']"
    by code_simp
  then have matched:
    "filter (\<lambda>city. \<exists>ps ss. toLowerCase city = ps @ toLowerCase ''new'' @ ss)
          [''New York'', ''Newark'', ''Boston''] = [''New York'', ''Newark'']"
    by (simp only: js_includes_iff)
  have url: "''/api/content/entity_values/'' @ FEED_ID None = ''/api/content/entity_values/292''"
    by (simp add: FEED_ID_def)
  show ?thesis
    using lookup_cities_matches [of "Obj [(''partial_name'', Str ''new'')]" "''new''"
      "remote_returning (Obj [(''unique_entity_value'', Arr [Str ''New York'', Str ''Newark'', Str ''Boston''])])"
      None "Obj [(''unique_entity_value'', Arr [Str ''New York'', Str ''Newark'', Str ''Boston''])]"
      "[''New York'', ''Newark'', ''Boston'']", unfolded matched url]
    by (simp add: remote_returning_def)
qed

section \<open>Latest report by city\<close>

text \<open>Claim C3. Whatever else the arguments hold, \<open>get_latest_market_report_by_city\<close>
  posts to \<^verbatim>\<open>/api/content/feed\<close> a body with \<open>page_num = 0\<close>, \<open>page_size = 1\<close> and the
  two filters: the city, then the fixed report type.\<close>

theorem latest_market_report_request:
  assumes "map_of kvs ''city_name'' = Some city_name"
  shows "fst (handler env remote ''get_latest_market_report_by_city'' (Obj kvs)) =
     [\<lparr>verb = POST, url = ''/api/content/feed'', params = Undefined,
       data = Obj [(''feed_id'', parseInt (FEED_ID env)),
                   (''page_num'', Num 0),
                   (''page_size'', Num 1),
                   (''entity_details'',
                    Arr [Obj [(''entity_type'', Str ''city''), (''entity_value'', city_name)],
                         Obj [(''entity_type'', Str ''Report''),
                              (''entity_value'', Str ''Monthly Report: Major Cities'')]])]\<rparr>]"
  using assms
  by (simp add: handler_def call_tool_def js_bind_simps io_bind_pure_Inr apiClient_post_def Let_def)

theorem latest_market_report_request_witness:
  "fst (handler None remote_ok ''get_latest_market_report_by_city''
          (Obj [(''city_name'', Str ''Miami''), (''page_size'', Num 25), (''page_num'', Num 3)])) =
     [\<lparr>verb = POST, url = ''/api/content/feed'', params = Undefined,
       data = Obj [(''feed_id'', Num 292),
                   (''page_num'', Num 0),
                   (''page_size'', Num 1),
                   (''entity_details'',
                    Arr [Obj [(''entity_type'', Str ''city''), (''entity_value'', Str ''Miami'')],
                         Obj [(''entity_type'', Str ''Report''),
                              (''entity_value'', Str ''Monthly Report: Major Cities'')]])]\<rparr>]"
  using latest_market_report_request [of "[(''city_name'', Str ''Miami''), (''page_size'', Num 25), (''page_num'', Num 3)]"
      "Str ''Miami''" None remote_ok, unfolded feed_id_default]
  by simp

text \<open>Claim C4. \<open>get_latest_price_analysis_by_city\<close> does exactly what
  \<open>get_latest_market_report_by_city\<close> does on the same arguments: the same request
  (method, path and body, the fixed report type included) and so the same result.\<close>

theorem price_analysis_same_request:
  "handler env remote ''get_latest_price_analysis_by_city'' args =
   handler env remote ''get_latest_market_report_by_city'' args"
  by (simp add: handler_def call_tool_def)

theorem price_analysis_same_request_witness:
  "fst (handler None remote_ok ''get_latest_price_analysis_by_city'' (Obj [(''city_name'', Str ''Miami'')])) =
     [\<lparr>verb = POST, url = ''/api/content/feed'', params = Undefined,
       data = Obj [(''feed_id'', Num 292),
                   (''page_num'', Num 0),
                   (''page_size'', Num 1),
                   (''entity_details'',
                    Arr [Obj [(''entity_type'', Str ''city''), (''entity_value'', Str ''Miami'')],
                         Obj [(''entity_type'', Str ''Report''),
                              (''entity_value'', Str ''Monthly Report: Major Cities'')]])]\<rparr>]"
proof -
  have "fst (handler None remote_ok ''get_latest_market_report_by_city'' (Obj [(''city_name'', Str ''Miami'')])) =
     [\<lparr>verb = POST, url = ''/api/content/feed'', params = Undefined,
       data = Obj [(''feed_id'', Num 292),
                   (''page_num'', Num 0),
                   (''page_size'', Num 1),
                   (''entity_details'',
                    Arr [Obj [(''entity_type'', Str ''city''), (''entity_value'', Str ''Miami'')],
                         Obj [(''entity_type'', Str ''Report''),
                              (''entity_value'', Str ''Monthly Report: Major Cities'')]])]\<rparr>]"
    by (simp add: handler_def call_tool_def js_bind_simps io_bind_pure_Inr apiClient_post_def Let_def feed_id_default)
  then show ?thesis
    using price_analysis_same_request [of None remote_ok "Obj [(''city_name'', Str ''Miami'')]"]
    by simp
qed

section \<open>Filtered and advanced search\<close>

text \<open>Claim C5. \<open>search_by_city\<close> with a city name and neither \<open>page_num\<close> nor
  \<open>page_size\<close> posts a body with \<open>page_num = 0\<close>, \<open>page_size = 10\<close> and the single city
  filter.\<close>

theorem search_by_city_defaults:
  assumes "map_of kvs ''city_name'' = Some city_name"
    and "map_of kvs ''page_num'' = None"
    and "map_of kvs ''page_size'' = None"
  shows "fst (handler env remote ''search_by_city'' (Obj kvs)) =
     [\<lparr>verb = POST, url = ''/api/content/feed'', params = Undefined,
       data = Obj [(''feed_id'', parseInt (FEED_ID env)),
                   (''page_num'', Num 0),
                   (''page_size'', Num 10),
                   (''entity_details'',
                    Arr [Obj [(''entity_type'', Str ''city''), (''entity_value'', city_name)]])]\<rparr>]"
  using assms
  by (simp add: handler_def call_tool_def js_bind_simps io_bind_pure_Inr apiClient_post_def Let_def js_or_def)

theorem search_by_city_defaults_witness:
  "fst (handler None remote_ok ''search_by_city'' (Obj [(''city_name'', Str ''Austin'')])) =
     [\<lparr>verb = POST, url = ''/api/content/feed'', params = Undefined,
       data = Obj [(''feed_id'', Num 292),
                   (''page_num'', Num 0),
                   (''page_size'', Num 10),
                   (''entity_details'',
                    Arr [Obj [(''entity_type'', Str ''city''), (''entity_value'', Str ''Austin'')]])]\<rparr>]"
  using search_by_city_defaults [of "[(''city_name'', Str ''Austin'')]" "Str ''Austin''" None remote_ok,
      unfolded feed_id_default]
  by simp

text \<open>Claim C6. \<open>advanced_content_search\<close> places the caller's dates, pagination and
  \<open>entity_details\<close> in the body as they are, \<^verbatim>\<open>undefined\<close> where the caller gave none:
  no default is applied.\<close>

theorem advanced_search_verbatim:
  "fst (handler env remote ''advanced_content_search'' (Obj kvs)) =
     [\<lparr>verb = POST, url = ''/api/content/feed'', params = Undefined,
       data = Obj [(''feed_id'', parseInt (FEED_ID env)),
                   (''published_date_from'', js_opt_get (Obj kvs) ''published_date_from''),
                   (''published_date_to'', js_opt_get (Obj kvs) ''published_date_to''),
                   (''page_num'', js_opt_get (Obj kvs) ''page_num''),
                   (''page_size'', js_opt_get (Obj kvs) ''page_size''),
                   (''entity_details'', js_opt_get (Obj kvs) ''entity_details'')]\<rparr>]"
  by (simp add: handler_def call_tool_def js_bind_simps io_bind_pure_Inr apiClient_post_def Let_def js_opt_get_def)

theorem advanced_search_verbatim_witness:
  "fst (handler None remote_ok ''advanced_content_search''
          (Obj [(''page_num'', Num 2), (''page_size'', Num 5)])) =
     [\<lparr>verb = POST, url = ''/api/content/feed'', params = Undefined,
       data = Obj [(''feed_id'', Num 292),
                   (''published_date_from'', Undefined),
                   (''published_date_to'', Undefined),
                   (''page_num'', Num 2),
                   (''page_size'', Num 5),
                   (''entity_details'', Undefined)]\<rparr>]"
  using advanced_search_verbatim [of None remote_ok "[(''page_num'', Num 2), (''page_size'', Num 5)]",
      unfolded feed_id_default]
  by (simp add: js_opt_get_def)

section \<open>Remote failures\<close>

text \<open>Claim C7, as it stands, fails when the remote body carries a message that is
  falsy: with the body \<^verbatim>\<open>{message: ""}\<close> the envelope's message is the transport-level
  message, not the remote one.\<close>

theorem remote_failure_empty_message_counterexample:
  "handler None (remote_500 (Obj [(''message'', Str '''')])) ''list_available_entity_types'' Undefined =
     ([\<lparr>verb = GET, url = ''/api/content/entity_types/292'', params = Undefined, data = Undefined\<rparr>],
      JSON_stringify (Obj [(''status'', Str ''error''),
                           (''message'', Str ''Request failed with status code 500''),
                           (''details'', Obj [(''message'', Str '''')])]))
   \<and> JSON_stringify (Obj [(''status'', Str ''error''),
                           (''message'', Str ''Request failed with status code 500''),
                           (''details'', Obj [(''message'', Str '''')])])
     \<noteq> JSON_stringify (Obj [(''status'', Str ''error''),
                           (''message'', Str ''''),
                           (''details'', Obj [(''message'', Str '''')])])"
  by code_simp

text \<open>Claim C7, amended. When the request a tool performs fails and the error carries
  a response body whose \<open>message\<close> is truthy, the envelope has status \<open>error\<close>, that
  message, and the body as details; when the error carries no response body and its own
  message is not empty, the envelope has that transport-level message and \<^verbatim>\<open>null\<close>
  details.\<close>

theorem remote_failure_envelope:
  assumes "req \<in> set (fst (handler env remote toolName args))"
    and "remote req = Inl error"
  shows "(truthy (js_opt_get (response_data error) ''message'') \<longrightarrow>
            handler env remote toolName args =
              ([req], JSON_stringify (Obj [(''status'', Str ''error''),
                                           (''message'', js_opt_get (response_data error) ''message''),
                                           (''details'', response_data error)])))
       \<and> (response_data error = Undefined \<longrightarrow> message error \<noteq> [] \<longrightarrow>
            handler env remote toolName args =
              ([req], JSON_stringify (Obj [(''status'', Str ''error''),
                                           (''message'', Str (message error)),
                                           (''details'', Null)])))"
proof -
  from assms(1) have "req \<in> set (fst (call_tool env remote toolName args))"
    by (simp add: handler_def Let_def)
  then have ct: "call_tool env remote toolName args = ([req], Inl error)"
    using assms(2) by (rule remote_failure_propagates)
  have body: "truthy (js_opt_get (response_data error) ''message'') \<Longrightarrow> truthy (response_data error)"
    by (cases "response_data error") (simp_all add: js_opt_get_def)
  show ?thesis
    using body
    by (auto simp add: handler_def ct Let_def envelope_def error_envelope_def errorMessage_def js_or_def js_opt_get_def)
qed

text \<open>A status 500 with the body \<^verbatim>\<open>{message: "server error"}\<close>.\<close>

theorem remote_failure_envelope_witness:
  "handler None (remote_500 (Obj [(''message'', Str ''server error'')])) ''list_available_entity_types'' Undefined =
     ([\<lparr>verb = GET, url = ''/api/content/entity_types/292'', params = Undefined, data = Undefined\<rparr>],
      JSON_stringify (Obj [(''status'', Str ''error''),
                           (''message'', Str ''server error''),
                           (''details'', Obj [(''message'', Str ''server error'')])]))"
proof -
  let ?req = "\<lparr>verb = GET, url = ''/api/content/entity_types/292'', params = Undefined, data = Undefined\<rparr>"
  let ?error = "JsError ''Request failed with status code 500'' (Obj [(''message'', Str ''server error'')])"
  have sent: "?req \<in> set (fst (handler None (remote_500 (Obj [(''message'', Str ''server error'')]))
                ''list_available_entity_types'' Undefined))"
    by (simp add: handler_def call_tool_def apiClient_get_alone FEED_ID_def Let_def)
  have failed: "remote_500 (Obj [(''message'', Str ''server error'')]) ?req = Inl ?error"
    by (simp add: remote_500_def)
  show ?thesis
    using remote_failure_envelope [OF sent failed]
    by (simp add: js_opt_get_def)
qed

section \<open>Pagination\<close>

text \<open>Claim C9, as it stands, fails: a \<open>page_size\<close> of 100 given to
  \<open>search_by_report_type\<close> is sent as it is.\<close>

theorem page_size_not_clamped_counterexample:
  "fst (handler None remote_ok ''search_by_report_type''
          (Obj [(''report_type'', Str ''Market Report''), (''page_size'', Num 100)])) =
     [\<lparr>verb = POST, url = ''/api/content/feed'', params = Undefined,
       data = Obj [(''feed_id'', Num 292),
                   (''page_num'', Num 0),
                   (''page_size'', Num 100),
                   (''entity_details'',
                    Arr [Obj [(''entity_type'', Str ''Report''), (''entity_value'', Str ''Market Report'')]])]\<rparr>]
   \<and> \<not> in_page_size_range (Num 100)"
  by code_simp

text \<open>Claim C9, amended. In every tool that builds a feed query the \<open>page_size\<close> sent
  is 1 in the two latest-report tools, the caller's value as it is in
  \<open>advanced_content_search\<close>, and in the three defaulting tools the caller's value when
  it is truthy and 10 otherwise; it is neither clamped nor rejected, so it lies in the
  range 1 to 50 whenever the caller's value does.\<close>

theorem page_size_passed_through:
  assumes "toolName \<in> set [''search_by_report_type'', ''search_by_city'', ''search_reports_by_date_range'',
                            ''advanced_content_search'', ''get_latest_market_report_by_city'',
                            ''get_latest_price_analysis_by_city'']"
  shows "sent_field ''page_size'' (fst (handler env remote toolName (Obj kvs))) =
           [if toolName = ''get_latest_market_report_by_city'' \<or> toolName = ''get_latest_price_analysis_by_city''
              then Num 1
            else if toolName = ''advanced_content_search'' \<or> truthy (js_opt_get (Obj kvs) ''page_size'')
              then js_opt_get (Obj kvs) ''page_size''
            else Num 10]
       \<and> (in_page_size_range (js_opt_get (Obj kvs) ''page_size'') \<longrightarrow>
            list_all in_page_size_range (sent_field ''page_size'' (fst (handler env remote toolName (Obj kvs)))))"
proof -
  have sent: "sent_field ''page_size'' (fst (handler env remote toolName (Obj kvs))) =
           [if toolName = ''get_latest_market_report_by_city'' \<or> toolName = ''get_latest_price_analysis_by_city''
              then Num 1
            else if toolName = ''advanced_content_search'' \<or> truthy (js_opt_get (Obj kvs) ''page_size'')
              then js_opt_get (Obj kvs) ''page_size''
            else Num 10]"
  proof -
    from assms have "toolName = ''search_by_report_type'' \<or> toolName = ''search_by_city''
      \<or> toolName = ''search_reports_by_date_range'' \<or> toolName = ''advanced_content_search''
      \<or> toolName = ''get_latest_market_report_by_city'' \<or> toolName = ''get_latest_price_analysis_by_city''"
      by simp
    then show ?thesis
      by (elim disjE) (simp_all add: sent_field_def handler_def call_tool_def Let_def js_bind_simps io_bind_pure
        apiClient_post_alone js_or_def js_opt_get_def)
  qed
  have range: "in_page_size_range v \<Longrightarrow> truthy v" for v
    by (cases v) (simp_all add: in_page_size_range_def)
  show ?thesis
    unfolding sent using range [of "js_opt_get (Obj kvs) ''page_size''"]
    by (simp add: in_page_size_range_def)
qed

theorem page_size_passed_through_witness:
  "sent_field ''page_size'' (fst (handler None remote_ok ''search_reports_by_date_range''
       (Obj [(''start_date'', Str ''2024-01-01''), (''end_date'', Str ''2024-02-01''), (''page_size'', Num 25)])))
     = [Num 25]
   \<and> list_all in_page_size_range (sent_field ''page_size'' (fst (handler None remote_ok ''search_reports_by_date_range''
       (Obj [(''start_date'', Str ''2024-01-01''), (''end_date'', Str ''2024-02-01''), (''page_size'', Num 25)]))))"
  using page_size_passed_through [where toolName = "''search_reports_by_date_range''"
      and kvs = "[(''start_date'', Str ''2024-01-01''), (''end_date'', Str ''2024-02-01''), (''page_size'', Num 25)]"
      and env = None and remote = remote_ok]
  by (simp add: js_opt_get_def in_page_size_range_def)

text \<open>Claim C10. In \<open>search_by_report_type\<close>, \<open>search_by_city\<close> and
  \<open>search_reports_by_date_range\<close> the defaults replace every falsy argument, not only an
  absent one: a falsy \<open>page_size\<close> (such as 0) is sent as 10, a falsy \<open>page_num\<close> as 0,
  and a call with \<open>page_num = 0\<close> is the call without \<open>page_num\<close>.\<close>

theorem pagination_defaults_on_falsy:
  assumes "toolName \<in> set [''search_by_report_type'', ''search_by_city'', ''search_reports_by_date_range'']"
  shows "(\<not> truthy (js_opt_get (Obj kvs) ''page_size'') \<longrightarrow>
            sent_field ''page_size'' (fst (handler env remote toolName (Obj kvs))) = [Num 10])
       \<and> (\<not> truthy (js_opt_get (Obj kvs) ''page_num'') \<longrightarrow>
            sent_field ''page_num'' (fst (handler env remote toolName (Obj kvs))) = [Num 0])
       \<and> (map_of kvs ''page_num'' = None \<longrightarrow>
            handler env remote toolName (Obj ((''page_num'', Num 0) # kvs)) =
            handler env remote toolName (Obj kvs))"
proof -
  from assms have "toolName = ''search_by_report_type'' \<or> toolName = ''search_by_city''
    \<or> toolName = ''search_reports_by_date_range''"
    by simp
  then show ?thesis
    by (elim disjE) (simp_all add: sent_field_def handler_def call_tool_def Let_def js_bind_simps io_bind_pure
        apiClient_post_alone js_or_def js_opt_get_def)
qed

theorem pagination_defaults_on_falsy_witness:
  "sent_field ''page_size'' (fst (handler None remote_ok ''search_by_city''
       (Obj [(''city_name'', Str ''Austin''), (''page_size'', Num 0)]))) = [Num 10]
   \<and> handler None remote_ok ''search_by_city'' (Obj [(''page_num'', Num 0), (''city_name'', Str ''Austin'')]) =
     handler None remote_ok ''search_by_city'' (Obj [(''city_name'', Str ''Austin'')])"
  using pagination_defaults_on_falsy [where toolName = "''search_by_city''"
      and kvs = "[(''city_name'', Str ''Austin''), (''page_size'', Num 0)]" and env = None and remote = remote_ok]
    pagination_defaults_on_falsy [where toolName = "''search_by_city''"
      and kvs = "[(''city_name'', Str ''Austin'')]" and env = None and remote = remote_ok]
  by (simp add: js_opt_get_def)

end
